theory Spec2Isabelle
  imports Main "HOL-Library.AList"
begin

section \<open>Position model\<close>

text \<open>
  The data of \<^verbatim>\<open>types.ts\<close>. A piece is a record of its kind and colour, a
  square is a record of a row and a column (JavaScript numbers, here integers,
  since the generators compute \<^verbatim>\<open>row - 1\<close> before they test the range), and a
  board is a list of rows of optional pieces.
\<close>

datatype PieceType = P | N | B | R | Q | K

datatype PieceColor = White | Black

record Piece =
  ptype :: PieceType
  color :: PieceColor

record Position =
  row :: int
  col :: int

type_synonym Board = "Piece option list list"

record CastlingRights =
  whiteKingSide :: bool
  whiteQueenSide :: bool
  blackKingSide :: bool
  blackQueenSide :: bool

text \<open>
  A move record. The optional flags \<^verbatim>\<open>isCastling\<close> and \<^verbatim>\<open>isEnPassant\<close> are
  only ever tested for truth, so an absent flag is \<open>False\<close>. The fields are
  prefixed because \<^verbatim>\<open>from\<close> is a keyword here.
\<close>

record Move =
  m_from :: Position
  m_to :: Position
  m_piece :: Piece
  m_captured :: "Piece option"
  m_promotion :: "PieceType option"
  m_isCastling :: bool
  m_isEnPassant :: bool

text \<open>
  Indexing an array with a number: \<^verbatim>\<open>xs[i]\<close> is the element at position
  \<open>i\<close>, and there is none outside the array (\<^verbatim>\<open>undefined\<close>).
\<close>

fun nthInt :: "'a list \<Rightarrow> int \<Rightarrow> 'a option" where
  "nthInt [] i = None"
| "nthInt (x # xs) i = (if i = 0 then Some x else nthInt xs (i - 1))"

fun updInt :: "'a list \<Rightarrow> int \<Rightarrow> 'a \<Rightarrow> 'a list" where
  "updInt [] i v = []"
| "updInt (x # xs) i v = (if i = 0 then v # xs else x # updInt xs (i - 1) v)"

text \<open>
  Reading \<^verbatim>\<open>board[r][c]\<close>. Every read of the source is either inside a
  loop over the rows and columns that exist or behind \<^verbatim>\<open>isValidPosition\<close>, so
  on an 8 by 8 board no read leaves the grid; outside it the model answers
  \<open>None\<close> (an empty square).
\<close>

definition at :: "Board \<Rightarrow> int \<Rightarrow> int \<Rightarrow> Piece option" where
  "at b r c =
     (case nthInt b r of
        None \<Rightarrow> None
      | Some rw \<Rightarrow> (case nthInt rw c of None \<Rightarrow> None | Some cell \<Rightarrow> cell))"

text \<open>
  Writing \<^verbatim>\<open>board[r][c] = v\<close> on a copy of the board. The moves written
  are generated ones, inside the grid; a write outside it changes nothing here.
\<close>

definition put :: "Board \<Rightarrow> int \<Rightarrow> int \<Rightarrow> Piece option \<Rightarrow> Board" where
  "put b r c v =
     (case nthInt b r of
        None \<Rightarrow> b
      | Some rw \<Rightarrow> updInt b r (updInt rw c v))"

text \<open>The squares a board has.\<close>

definition inGrid :: "Board \<Rightarrow> int \<Rightarrow> int \<Rightarrow> bool" where
  "inGrid b r c = (case nthInt b r of None \<Rightarrow> False | Some rw \<Rightarrow> nthInt rw c \<noteq> None)"

definition wf_board :: "Board \<Rightarrow> bool" where
  "wf_board b \<longleftrightarrow> length b = 8 \<and> list_all (\<lambda>r. length r = 8) b"

definition other :: "PieceColor \<Rightarrow> PieceColor" where
  "other c = (if c = White then Black else White)"

section \<open>Move validation\<close>

definition isValidPosition :: "Position \<Rightarrow> bool" where
  "isValidPosition pos \<longleftrightarrow> row pos \<ge> 0 \<and> row pos < 8 \<and> col pos \<ge> 0 \<and> col pos < 8"

definition enemyAt :: "Board \<Rightarrow> PieceColor \<Rightarrow> Position \<Rightarrow> bool" where
  "enemyAt b c pos = (case at b (row pos) (col pos) of None \<Rightarrow> False | Some t \<Rightarrow> color t \<noteq> c)"

definition freeOrEnemyAt :: "Board \<Rightarrow> PieceColor \<Rightarrow> Position \<Rightarrow> bool" where
  "freeOrEnemyAt b c pos = (case at b (row pos) (col pos) of None \<Rightarrow> True | Some t \<Rightarrow> color t \<noteq> c)"

definition getPawnMoves :: "Board \<Rightarrow> Position \<Rightarrow> PieceColor \<Rightarrow> Position list" where
  "getPawnMoves b from c =
     (let direction = (if c = White then 1 else -1);
          startRow = (if c = White then 1 else 6);
          oneForward = \<lparr>row = row from + direction, col = col from\<rparr>;
          twoForward = \<lparr>row = row from + 2 * direction, col = col from\<rparr>;
          captureLeft = \<lparr>row = row from + direction, col = col from - 1\<rparr>;
          captureRight = \<lparr>row = row from + direction, col = col from + 1\<rparr>
      in (if isValidPosition oneForward \<and> at b (row oneForward) (col oneForward) = None
          then oneForward #
               (if row from = startRow \<and> isValidPosition twoForward
                    \<and> at b (row twoForward) (col twoForward) = None
                then [twoForward] else [])
          else [])
         @ filter (\<lambda>pos. isValidPosition pos \<and> enemyAt b c pos) [captureLeft, captureRight])"

definition offsetMoves :: "Board \<Rightarrow> Position \<Rightarrow> PieceColor \<Rightarrow> (int \<times> int) list \<Rightarrow> Position list" where
  "offsetMoves b from c offsets =
     filter (\<lambda>pos. isValidPosition pos \<and> freeOrEnemyAt b c pos)
       (map (\<lambda>(rowOffset, colOffset). \<lparr>row = row from + rowOffset, col = col from + colOffset\<rparr>) offsets)"

definition getKnightMoves :: "Board \<Rightarrow> Position \<Rightarrow> PieceColor \<Rightarrow> Position list" where
  "getKnightMoves b from c =
     offsetMoves b from c [(-2, -1), (-2, 1), (-1, -2), (-1, 2), (1, -2), (1, 2), (2, -1), (2, 1)]"

text \<open>
  One ray of \<^verbatim>\<open>getLinearMoves\<close>: the \<^verbatim>\<open>while\<close> loop that walks from a square
  in one direction until it leaves the board or meets a piece. The source only
  passes the eight unit directions; with the direction \<open>(0, 0)\<close> its loop would
  not end on an empty square, and the model stops there.
\<close>

function ray :: "Board \<Rightarrow> PieceColor \<Rightarrow> int \<Rightarrow> int \<Rightarrow> int \<Rightarrow> int \<Rightarrow> Position list" where
  "ray b c rowDir colDir r k =
     (if (rowDir = 0 \<and> colDir = 0) \<or> \<not> isValidPosition \<lparr>row = r, col = k\<rparr> then []
      else (case at b r k of
              None \<Rightarrow> \<lparr>row = r, col = k\<rparr> # ray b c rowDir colDir (r + rowDir) (k + colDir)
            | Some t \<Rightarrow> (if color t \<noteq> c then [\<lparr>row = r, col = k\<rparr>] else [])))"
  by pat_completeness auto
termination
  by (relation "measure (\<lambda>(b, c, rowDir, colDir, r, k).
        if rowDir > 0 then nat (8 - r) else if rowDir < 0 then nat (r + 1)
        else if colDir > 0 then nat (8 - k) else nat (k + 1))")
     (auto simp: isValidPosition_def)

definition getLinearMoves :: "Board \<Rightarrow> Position \<Rightarrow> PieceColor \<Rightarrow> (int \<times> int) list \<Rightarrow> Position list" where
  "getLinearMoves b from c directions =
     concat (map (\<lambda>(rowDir, colDir). ray b c rowDir colDir (row from + rowDir) (col from + colDir)) directions)"

definition getBishopMoves :: "Board \<Rightarrow> Position \<Rightarrow> PieceColor \<Rightarrow> Position list" where
  "getBishopMoves b from c = getLinearMoves b from c [(-1, -1), (-1, 1), (1, -1), (1, 1)]"

definition getRookMoves :: "Board \<Rightarrow> Position \<Rightarrow> PieceColor \<Rightarrow> Position list" where
  "getRookMoves b from c = getLinearMoves b from c [(-1, 0), (1, 0), (0, -1), (0, 1)]"

definition getQueenMoves :: "Board \<Rightarrow> Position \<Rightarrow> PieceColor \<Rightarrow> Position list" where
  "getQueenMoves b from c =
     getLinearMoves b from c [(-1, -1), (-1, 0), (-1, 1), (0, -1), (0, 1), (1, -1), (1, 0), (1, 1)]"

definition getKingMoves :: "Board \<Rightarrow> Position \<Rightarrow> PieceColor \<Rightarrow> Position list" where
  "getKingMoves b from c =
     offsetMoves b from c [(-1, -1), (-1, 0), (-1, 1), (0, -1), (0, 1), (1, -1), (1, 0), (1, 1)]"

definition getValidMoves :: "Board \<Rightarrow> Position \<Rightarrow> Piece \<Rightarrow> Position list" where
  "getValidMoves b from piece =
     (case ptype piece of
        P \<Rightarrow> getPawnMoves b from (color piece)
      | N \<Rightarrow> getKnightMoves b from (color piece)
      | B \<Rightarrow> getBishopMoves b from (color piece)
      | R \<Rightarrow> getRookMoves b from (color piece)
      | Q \<Rightarrow> getQueenMoves b from (color piece)
      | K \<Rightarrow> getKingMoves b from (color piece))"


definition isPositionEqual :: "Position \<Rightarrow> Position \<Rightarrow> bool" where
  "isPositionEqual a b \<longleftrightarrow> row a = row b \<and> col a = col b"

text \<open>The indices of the loops \<^verbatim>\<open>for (let row = 0; row < 8; row++)\<close>.\<close>

definition idx8 :: "int list" where
  "idx8 = [0, 1, 2, 3, 4, 5, 6, 7]"

text \<open>A loop that returns the first result found.\<close>

fun firstSome :: "('a \<Rightarrow> 'b option) \<Rightarrow> 'a list \<Rightarrow> 'b option" where
  "firstSome f [] = None"
| "firstSome f (x # xs) = (case f x of Some y \<Rightarrow> Some y | None \<Rightarrow> firstSome f xs)"

definition findKing :: "Board \<Rightarrow> PieceColor \<Rightarrow> Position option" where
  "findKing b c =
     firstSome (\<lambda>r. firstSome (\<lambda>k.
        case at b r k of
          None \<Rightarrow> None
        | Some piece \<Rightarrow>
            if ptype piece = K \<and> color piece = c then Some \<lparr>row = r, col = k\<rparr> else None) idx8) idx8"

definition isPositionUnderAttack :: "Board \<Rightarrow> Position \<Rightarrow> PieceColor \<Rightarrow> bool" where
  "isPositionUnderAttack b position byColor =
     list_ex (\<lambda>r. list_ex (\<lambda>k.
        case at b r k of
          None \<Rightarrow> False
        | Some piece \<Rightarrow> color piece = byColor \<and>
            list_ex (\<lambda>move. isPositionEqual move position)
              (getValidMoves b \<lparr>row = r, col = k\<rparr> piece)) idx8) idx8"

definition isKingInCheck :: "Board \<Rightarrow> PieceColor \<Rightarrow> bool" where
  "isKingInCheck b kingColor =
     (case findKing b kingColor of
        None \<Rightarrow> False
      | Some kingPos \<Rightarrow>
          isPositionUnderAttack b kingPos (if kingColor = White then Black else White))"

definition wouldMoveResultInCheck :: "Board \<Rightarrow> Position \<Rightarrow> Position \<Rightarrow> PieceColor \<Rightarrow> bool" where
  "wouldMoveResultInCheck b from to playerColor =
     (let piece = at b (row from) (col from);
          tempBoard = put b (row to) (col to) piece;
          tempBoard = put tempBoard (row from) (col from) None
      in isKingInCheck tempBoard playerColor)"

text \<open>
  \<^verbatim>\<open>getCastlingMoves\<close>. The king of this board starts on column 3, so the
  side the source calls king-side is the one towards column 7.
\<close>

definition getCastlingMoves ::
  "Board \<Rightarrow> Position \<Rightarrow> PieceColor \<Rightarrow> bool \<Rightarrow> bool \<Rightarrow> bool \<Rightarrow> Position list" where
  "getCastlingMoves b from c kingSide queenSide isInCheck =
     (let r = (if c = White then 0 else 7);
          enemyColor = (if c = White then Black else White)
      in if row from \<noteq> r \<or> col from \<noteq> 3 then []
         else if isInCheck then []
         else
           (if kingSide then
              (let rook = at b r 7;
                   squaresBetween = [4, 5];
                   allClear = list_all (\<lambda>k. at b r k = None) squaresBetween;
                   notUnderAttack = list_all
                     (\<lambda>k. \<not> isPositionUnderAttack b \<lparr>row = r, col = k\<rparr> enemyColor) squaresBetween
               in if (case rook of None \<Rightarrow> False | Some t \<Rightarrow> ptype t = R \<and> color t = c)
                     \<and> allClear \<and> notUnderAttack
                  then [\<lparr>row = r, col = 5\<rparr>] else [])
            else [])
           @
           (if queenSide then
              (let rook = at b r 0;
                   squaresBetween = [1, 2];
                   squaresNotUnderAttack = [1, 2];
                   allClear = list_all (\<lambda>k. at b r k = None) squaresBetween;
                   notUnderAttack = list_all
                     (\<lambda>k. \<not> isPositionUnderAttack b \<lparr>row = r, col = k\<rparr> enemyColor) squaresNotUnderAttack
               in if (case rook of None \<Rightarrow> False | Some t \<Rightarrow> ptype t = R \<and> color t = c)
                     \<and> allClear \<and> notUnderAttack
                  then [\<lparr>row = r, col = 1\<rparr>] else [])
            else []))"

section \<open>The initial board\<close>

definition createInitialBoard :: Board where
  "createInitialBoard =
     (let backRow = \<lambda>c. map (\<lambda>t. Some \<lparr>ptype = t, color = c\<rparr>) [R, N, B, K, Q, B, N, R];
          pawns = \<lambda>c. replicate 8 (Some \<lparr>ptype = P, color = c\<rparr>);
          empty = replicate 8 None
      in [backRow White, pawns White, empty, empty, empty, empty, pawns Black, backRow Black])"

section \<open>Legal moves of a side, and applying a move\<close>

text \<open>
  \<^verbatim>\<open>getValidMovesForColor\<close> of the search engine. Its optional \<^verbatim>\<open>lastMove\<close> is
  handed to \<^verbatim>\<open>getValidMoves\<close> as a fourth argument, which that function does
  not have, so it is dropped there. Optional castling rights are an option.
\<close>

definition plainMove :: "Position \<Rightarrow> Piece \<Rightarrow> Piece option \<Rightarrow> Position \<Rightarrow> Move" where
  "plainMove from piece captured to =
     \<lparr>m_from = from, m_to = to, m_piece = piece, m_captured = captured,
      m_promotion = None, m_isCastling = False, m_isEnPassant = False\<rparr>"

definition castlingMove :: "Position \<Rightarrow> Piece \<Rightarrow> Position \<Rightarrow> Move" where
  "castlingMove from piece to =
     \<lparr>m_from = from, m_to = to, m_piece = piece, m_captured = None,
      m_promotion = None, m_isCastling = True, m_isEnPassant = False\<rparr>"

definition movesFrom ::
  "Board \<Rightarrow> PieceColor \<Rightarrow> CastlingRights option \<Rightarrow> Position \<Rightarrow> Move list" where
  "movesFrom b c castlingRights from =
     (case at b (row from) (col from) of
        None \<Rightarrow> []
      | Some piece \<Rightarrow>
          if color piece \<noteq> c then []
          else
            (let possibleMoves = getValidMoves b from piece;
                 legalMoves = filter (\<lambda>to. \<not> wouldMoveResultInCheck b from to (color piece)) possibleMoves
             in map (\<lambda>to. plainMove from piece (at b (row to) (col to)) to) legalMoves
                @ (case castlingRights of
                     None \<Rightarrow> []
                   | Some cr \<Rightarrow>
                       if ptype piece = K then
                         (let kingSide = (if c = White then whiteKingSide cr else blackKingSide cr);
                              queenSide = (if c = White then whiteQueenSide cr else blackQueenSide cr);
                              inCheck = isKingInCheck b c;
                              castlingMoves = getCastlingMoves b from c kingSide queenSide inCheck
                          in map (castlingMove from piece) castlingMoves)
                       else [])))"

text \<open>
  The squares of the loops \<^verbatim>\<open>row < board.length\<close>, \<^verbatim>\<open>col < board[row].length\<close>,
  in their order.
\<close>

fun rowSquares :: "int \<Rightarrow> int \<Rightarrow> 'a list \<Rightarrow> Position list" where
  "rowSquares r k [] = []"
| "rowSquares r k (x # xs) = \<lparr>row = r, col = k\<rparr> # rowSquares r (k + 1) xs"

fun squaresFrom :: "int \<Rightarrow> 'a list list \<Rightarrow> Position list" where
  "squaresFrom r [] = []"
| "squaresFrom r (rw # rws) = rowSquares r 0 rw @ squaresFrom (r + 1) rws"

definition boardSquares :: "Board \<Rightarrow> Position list" where
  "boardSquares b = squaresFrom 0 b"

definition getValidMovesForColor ::
  "Board \<Rightarrow> PieceColor \<Rightarrow> CastlingRights option \<Rightarrow> Move option \<Rightarrow> Move list" where
  "getValidMovesForColor b c castlingRights lastMove =
     concat (map (movesFrom b c castlingRights) (boardSquares b))"

definition applyMove :: "Board \<Rightarrow> Move \<Rightarrow> Board" where
  "applyMove b move =
     (case at b (row (m_from move)) (col (m_from move)) of
        None \<Rightarrow> b
      | Some piece \<Rightarrow>
          (let fr = row (m_from move);
               newBoard = put b (row (m_to move)) (col (m_to move)) (Some piece);
               newBoard = put newBoard fr (col (m_from move)) None;
               newBoard =
                 (if m_isCastling move \<and> ptype piece = K then
                    (if col (m_to move) = 5 then
                       put (put newBoard fr 4 (at newBoard fr 7)) fr 7 None
                     else if col (m_to move) = 1 then
                       put (put newBoard fr 2 (at newBoard fr 0)) fr 0 None
                     else newBoard)
                  else newBoard);
               newBoard =
                 (if m_isEnPassant move \<and> ptype piece = P
                  then put newBoard fr (col (m_to move)) None else newBoard);
               newBoard =
                 (if ptype piece = P \<and> row (m_to move) = (if color piece = White then 7 else 0)
                  then put newBoard (row (m_to move)) (col (m_to move))
                         (Some \<lparr>ptype = Q, color = color piece\<rparr>)
                  else newBoard)
           in newBoard))"

definition updateCastlingRights ::
  "CastlingRights option \<Rightarrow> Move \<Rightarrow> Board \<Rightarrow> CastlingRights option" where
  "updateCastlingRights rights move b =
     (case rights of
        None \<Rightarrow> None
      | Some cr \<Rightarrow>
          (case at b (row (m_from move)) (col (m_from move)) of
             None \<Rightarrow> Some cr
           | Some piece \<Rightarrow>
               (let newRights =
                      (if ptype piece = K then
                         (if color piece = White
                          then cr\<lparr>whiteKingSide := False, whiteQueenSide := False\<rparr>
                          else cr\<lparr>blackKingSide := False, blackQueenSide := False\<rparr>)
                       else cr);
                    newRights =
                      (if ptype piece = R then
                         (if color piece = White \<and> row (m_from move) = 0 then
                            (let n1 = (if col (m_from move) = 0
                                       then newRights\<lparr>whiteQueenSide := False\<rparr> else newRights)
                             in if col (m_from move) = 7 then n1\<lparr>whiteKingSide := False\<rparr> else n1)
                          else if color piece = Black \<and> row (m_from move) = 7 then
                            (let n1 = (if col (m_from move) = 0
                                       then newRights\<lparr>blackQueenSide := False\<rparr> else newRights)
                             in if col (m_from move) = 7 then n1\<lparr>blackKingSide := False\<rparr> else n1)
                          else newRights)
                       else newRights)
                in Some newRights)))"


section \<open>Position keys\<close>

text \<open>
  \<^verbatim>\<open>hashPosition\<close> is \<^verbatim>\<open>JSON.stringify({b: board, s: sideToMove, c: castlingRights})\<close>.
  The text JSON.stringify writes is modelled character by character: an array
  is its items between brackets, separated by commas; an empty square is
  \<^verbatim>\<open>null\<close>; an object lists its properties in the order they were created
  (\<^verbatim>\<open>type\<close> then \<^verbatim>\<open>color\<close> for a piece, the four rights in the order of
  the interface); a property whose value is \<^verbatim>\<open>undefined\<close> (absent castling
  rights) is left out.
\<close>

definition jsonString :: "string \<Rightarrow> string" where
  "jsonString s = CHR 0x22 # s @ [CHR 0x22]"

fun typeName :: "PieceType \<Rightarrow> string" where
  "typeName P = ''p''" | "typeName N = ''n''" | "typeName B = ''b''"
| "typeName R = ''r''" | "typeName Q = ''q''" | "typeName K = ''k''"

fun colorName :: "PieceColor \<Rightarrow> string" where
  "colorName White = ''white''" | "colorName Black = ''black''"

definition jsonPiece :: "Piece \<Rightarrow> string" where
  "jsonPiece p = ''{'' @ jsonString ''type'' @ '':'' @ jsonString (typeName (ptype p)) @ '',''
                 @ jsonString ''color'' @ '':'' @ jsonString (colorName (color p)) @ ''}''"

definition jsonCell :: "Piece option \<Rightarrow> string" where
  "jsonCell c = (case c of None \<Rightarrow> ''null'' | Some p \<Rightarrow> jsonPiece p)"

fun jsonItems :: "('a \<Rightarrow> string) \<Rightarrow> 'a list \<Rightarrow> string" where
  "jsonItems f [] = []"
| "jsonItems f [x] = f x"
| "jsonItems f (x # y # ys) = f x @ '','' @ jsonItems f (y # ys)"

definition jsonArray :: "('a \<Rightarrow> string) \<Rightarrow> 'a list \<Rightarrow> string" where
  "jsonArray f xs = ''['' @ jsonItems f xs @ '']''"

definition jsonBool :: "bool \<Rightarrow> string" where
  "jsonBool v = (if v then ''true'' else ''false'')"

definition jsonRights :: "CastlingRights \<Rightarrow> string" where
  "jsonRights cr =
     ''{'' @ jsonString ''whiteKingSide'' @ '':'' @ jsonBool (whiteKingSide cr) @ '',''
     @ jsonString ''whiteQueenSide'' @ '':'' @ jsonBool (whiteQueenSide cr) @ '',''
     @ jsonString ''blackKingSide'' @ '':'' @ jsonBool (blackKingSide cr) @ '',''
     @ jsonString ''blackQueenSide'' @ '':'' @ jsonBool (blackQueenSide cr) @ ''}''"

definition hashPosition :: "Board \<Rightarrow> PieceColor \<Rightarrow> CastlingRights option \<Rightarrow> string" where
  "hashPosition b s c =
     ''{'' @ jsonString ''b'' @ '':'' @ jsonArray (jsonArray jsonCell) b @ '',''
     @ jsonString ''s'' @ '':'' @ jsonString (colorName s)
     @ (case c of None \<Rightarrow> [] | Some cr \<Rightarrow> '','' @ jsonString ''c'' @ '':'' @ jsonRights cr)
     @ ''}''"

section \<open>Repetition detection\<close>

text \<open>
  The loop of \<^verbatim>\<open>isThirdRepetition\<close> with its counter: it returns as soon as the
  counter reaches two.
\<close>

fun repetitionLoop :: "string \<Rightarrow> string list \<Rightarrow> nat \<Rightarrow> bool" where
  "repetitionLoop key [] count = False"
| "repetitionLoop key (h # history) count =
     (if h = key
      then (if count + 1 \<ge> 2 then True else repetitionLoop key history (count + 1))
      else repetitionLoop key history count)"

definition isThirdRepetition :: "string \<Rightarrow> string list \<Rightarrow> bool" where
  "isThirdRepetition key history = repetitionLoop key history 0"

section \<open>Scores\<close>

text \<open>
  Scores are JavaScript numbers. The search only compares them, negates them
  and adds small integers to them, and it starts its bounds at
  \<^verbatim>\<open>-Infinity\<close> and \<^verbatim>\<open>Infinity\<close> (which an evaluation function may return
  as well), so they are modelled as the integers with the two infinities.
\<close>

datatype score = NegInf | Fin int | PosInf

instantiation score :: "{linorder, uminus}"
begin

fun less_eq_score :: "score \<Rightarrow> score \<Rightarrow> bool" where
  "less_eq_score NegInf y = True"
| "less_eq_score (Fin a) NegInf = False"
| "less_eq_score (Fin a) (Fin b) = (a \<le> b)"
| "less_eq_score (Fin a) PosInf = True"
| "less_eq_score PosInf PosInf = True"
| "less_eq_score PosInf y = False"

definition less_score :: "score \<Rightarrow> score \<Rightarrow> bool" where
  "less_score x y = (x \<le> y \<and> \<not> y \<le> (x::score))"

fun uminus_score :: "score \<Rightarrow> score" where
  "uminus_score NegInf = PosInf"
| "uminus_score (Fin a) = Fin (- a)"
| "uminus_score PosInf = NegInf"

instance
proof
  fix x y z :: score
  show "(x < y) = (x \<le> y \<and> \<not> y \<le> x)" by (simp add: less_score_def)
  show "x \<le> x" by (cases x) auto
  show "x \<le> y \<Longrightarrow> y \<le> z \<Longrightarrow> x \<le> z" by (cases x; cases y; cases z) auto
  show "x \<le> y \<Longrightarrow> y \<le> x \<Longrightarrow> x = y" by (cases x; cases y) auto
  show "x \<le> y \<or> y \<le> x" by (cases x; cases y) auto
qed

end

text \<open>\<^verbatim>\<open>x + k\<close> for an integer \<open>k\<close>, and \<^verbatim>\<open>Math.abs\<close>.\<close>

definition addInt :: "score \<Rightarrow> int \<Rightarrow> score" where
  "addInt x k = (case x of Fin a \<Rightarrow> Fin (a + k) | _ \<Rightarrow> x)"

definition scoreAbs :: "score \<Rightarrow> score" where
  "scoreAbs x = (case x of NegInf \<Rightarrow> PosInf | Fin a \<Rightarrow> Fin \<bar>a\<bar> | PosInf \<Rightarrow> PosInf)"

section \<open>The tables of the search engine\<close>

fun PIECE_VALUES :: "PieceType \<Rightarrow> int" where
  "PIECE_VALUES P = 100"
| "PIECE_VALUES N = 320"
| "PIECE_VALUES B = 330"
| "PIECE_VALUES R = 500"
| "PIECE_VALUES Q = 900"
| "PIECE_VALUES K = 20000"

datatype Flag = Exact | Alpha | Beta

record TTEntry =
  e_depth :: int
  e_score :: score
  e_flag :: Flag
  e_bestMove :: "Move option"
  e_age :: int

definition MAX_TT_SIZE :: int where
  "MAX_TT_SIZE = 1000000"

text \<open>
  The module-level state: the transposition table (a \<^verbatim>\<open>Map\<close>, which keeps
  its keys in insertion order, here an association list), the age counter, the
  killer moves of each ply and the history table. \<open>timeExpired\<close> is the flag
  of one call of \<^verbatim>\<open>myMinimaxMove\<close>, and \<open>clock\<close> counts how often that call
  has read \<^verbatim>\<open>Date.now()\<close>.
\<close>

record Engine =
  transpositionTable :: "(string \<times> TTEntry) list"
  currentAge :: int
  killerMoves :: "Move list list"
  historyTable :: "Position \<Rightarrow> Position \<Rightarrow> int"
  timeExpired :: bool
  clock :: nat

text \<open>
  What one call of \<^verbatim>\<open>myMinimaxMove\<close> fixes for its inner functions: the
  evaluation function, the root colour, the time budget and the start time,
  and the readings of the wall clock (\<open>now k\<close> is the value of the \<open>k\<close>-th
  \<^verbatim>\<open>Date.now()\<close>).
\<close>

record Config =
  evaluate :: "Board \<Rightarrow> PieceColor \<Rightarrow> score"
  rootColor :: PieceColor
  maxTime :: "int option"
  startTime :: int
  now :: "nat \<Rightarrow> int"

fun staleKeys :: "int \<Rightarrow> (string \<times> TTEntry) list \<Rightarrow> string list \<Rightarrow> string list" where
  "staleKeys age [] toRemove = toRemove"
| "staleKeys age ((key, entry) # rest) toRemove =
     (let toRemove = (if e_age entry < age - 2 then toRemove @ [key] else toRemove)
      in if int (length toRemove) > MAX_TT_SIZE div 10 then toRemove
         else staleKeys age rest toRemove)"

definition storeTT :: "string \<Rightarrow> int \<Rightarrow> score \<Rightarrow> Flag \<Rightarrow> Move option \<Rightarrow> Engine \<Rightarrow> Engine" where
  "storeTT hash depth sc flag bestMove st =
     (let table = transpositionTable st;
          table = (if int (length table) \<ge> MAX_TT_SIZE
                   then foldl (\<lambda>t key. AList.delete key t) table (staleKeys (currentAge st) table [])
                   else table)
      in st\<lparr>transpositionTable :=
              AList.update hash \<lparr>e_depth = depth, e_score = sc, e_flag = flag,
                                 e_bestMove = bestMove, e_age = currentAge st\<rparr> table\<rparr>)"

definition clearKillers :: "Engine \<Rightarrow> Engine" where
  "clearKillers st = st\<lparr>killerMoves := map (\<lambda>_. []) (killerMoves st)\<rparr>"

definition sameSquares :: "Move \<Rightarrow> Move \<Rightarrow> bool" where
  "sameSquares k move \<longleftrightarrow>
     row (m_from k) = row (m_from move) \<and> col (m_from k) = col (m_from move) \<and>
     row (m_to k) = row (m_to move) \<and> col (m_to k) = col (m_to move)"

text \<open>The ply is never negative: the root calls with 1 and each level adds 1.\<close>

definition storeKiller :: "Move \<Rightarrow> int \<Rightarrow> Engine \<Rightarrow> Engine" where
  "storeKiller move ply st =
     (if ply \<ge> int (length (killerMoves st)) then st
      else if m_captured move \<noteq> None then st
      else
        (let killers = killerMoves st ! nat ply
         in if list_ex (\<lambda>k. sameSquares k move) killers then st
            else (let killers = move # killers;
                      killers = (if length killers > 2 then butlast killers else killers)
                  in st\<lparr>killerMoves := (killerMoves st)[nat ply := killers]\<rparr>)))"

definition updateHistory :: "Move \<Rightarrow> int \<Rightarrow> Engine \<Rightarrow> Engine" where
  "updateHistory move depth st =
     (let bonus = depth * depth;
          h = historyTable st
      in st\<lparr>historyTable := h(m_from move := (h (m_from move))(m_to move := h (m_from move) (m_to move) + bonus))\<rparr>)"

fun findIndex :: "('a \<Rightarrow> bool) \<Rightarrow> 'a list \<Rightarrow> int" where
  "findIndex p [] = -1"
| "findIndex p (x # xs) = (if p x then 0 else (let i = findIndex p xs in if i < 0 then -1 else i + 1))"

definition scoreMove :: "Engine \<Rightarrow> Move \<Rightarrow> int \<Rightarrow> Move option \<Rightarrow> int" where
  "scoreMove st move ply ttBestMove =
     (if (case ttBestMove of None \<Rightarrow> False | Some t \<Rightarrow> sameSquares t move) then 1000000
      else case m_captured move of
        Some victim \<Rightarrow> 100000 + (PIECE_VALUES (ptype victim) * 10 - PIECE_VALUES (ptype (m_piece move)))
      | None \<Rightarrow>
         (case m_promotion move of
            Some t \<Rightarrow> 90000 + PIECE_VALUES t
          | None \<Rightarrow>
             (let idx = (if ply < int (length (killerMoves st))
                         then findIndex (\<lambda>k. sameSquares k move) (killerMoves st ! nat ply) else -1)
              in if idx = 0 then 80000
                 else if idx = 1 then 70000
                 else historyTable st (m_from move) (m_to move))))"

text \<open>
  \<^verbatim>\<open>moves.sort((a, b) => scoreMove(b) - scoreMove(a))\<close>: a stable sort (as
  ECMAScript 2019 requires) by descending score.
\<close>

definition orderMoves :: "Engine \<Rightarrow> Move list \<Rightarrow> int \<Rightarrow> Move option \<Rightarrow> Move list" where
  "orderMoves st moves ply ttBestMove = sort_key (\<lambda>m. - scoreMove st m ply ttBestMove) moves"

definition isTimeExpired :: "Config \<Rightarrow> Engine \<Rightarrow> bool \<times> Engine" where
  "isTimeExpired cfg st =
     (if timeExpired st then (True, st)
      else case maxTime cfg of
        None \<Rightarrow> (False, st)
      | Some budget \<Rightarrow>
          (let t = now cfg (clock st);
               st = st\<lparr>clock := clock st + 1\<rparr>
           in if t - startTime cfg > budget then (True, st\<lparr>timeExpired := True\<rparr>)
              else (False, st)))"

section \<open>Loops with break and return\<close>

datatype ('s, 'r) step = Continue 's | Break 's | Return 'r

datatype ('s, 'r) outcome = Done 's | Returned 'r

fun forOf :: "('a \<Rightarrow> 's \<Rightarrow> ('s, 'r) step) \<Rightarrow> 'a list \<Rightarrow> 's \<Rightarrow> ('s, 'r) outcome" where
  "forOf body [] s = Done s"
| "forOf body (x # xs) s =
     (case body x s of
        Continue s' \<Rightarrow> forOf body xs s'
      | Break s' \<Rightarrow> Done s'
      | Return r \<Rightarrow> Returned r)"

lemma forOf_cong [fundef_cong]:
  "xs = ys \<Longrightarrow> s = t \<Longrightarrow> (\<And>x u. x \<in> set ys \<Longrightarrow> f x u = g x u) \<Longrightarrow> forOf f xs s = forOf g ys t"
proof (induction ys arbitrary: xs s t)
  case Nil
  then show ?case by simp
next
  case (Cons y ys)
  then show ?case by (auto split: step.splits)
qed


section \<open>Quiescence search\<close>

text \<open>The number of pieces on a board: what every capture decreases.\<close>

definition pieces :: "Board \<Rightarrow> nat" where
  "pieces b = sum_list (map (\<lambda>r. length (filter (\<lambda>c. c \<noteq> None) r)) b)"

definition captureScore :: "Move \<Rightarrow> int" where
  "captureScore m =
     (case m_captured m of
        None \<Rightarrow> 0
      | Some victim \<Rightarrow> PIECE_VALUES (ptype victim) * 10 - PIECE_VALUES (ptype (m_piece m)))"

definition sortedCaptures :: "Move list \<Rightarrow> Move list" where
  "sortedCaptures moves = sort_key (\<lambda>m. - captureScore m) (filter (\<lambda>m. m_captured m \<noteq> None) moves)"

definition fromRoot :: "Config \<Rightarrow> PieceColor \<Rightarrow> score \<Rightarrow> score" where
  "fromRoot cfg sideToMove v = (if sideToMove = rootColor cfg then v else - v)"

lemma nthInt_updInt:
  "nthInt (updInt xs i v) j = (if j = i \<and> nthInt xs i \<noteq> None then Some v else nthInt xs j)"
  by (induction xs arbitrary: i j) auto

lemma at_put:
  "at (put b r k v) r' k' = (if r' = r \<and> k' = k \<and> inGrid b r k then v else at b r' k')"
  by (auto simp: at_def put_def inGrid_def nthInt_updInt split: option.splits)

lemma at_Some_inGrid: "at b r k = Some p \<Longrightarrow> inGrid b r k"
  by (auto simp: at_def inGrid_def split: option.splits)

lemma inGrid_put: "inGrid (put b r k v) r' k' = inGrid b r' k'"
  by (auto simp: put_def inGrid_def nthInt_updInt split: option.splits)

lemma count_updInt:
  "nthInt xs i = Some x \<Longrightarrow>
   length (filter p (updInt xs i v)) + (if p x then 1 else 0) =
   length (filter p xs) + (if p v then 1 else 0)"
  by (induction xs arbitrary: i) (auto split: if_splits)

lemma sum_updInt:
  "nthInt xs i = Some x \<Longrightarrow>
   sum_list (map f (updInt xs i v)) + f x = sum_list (map f xs) + (f v :: nat)"
  by (induction xs arbitrary: i) (auto split: if_splits)

lemma pieces_put:
  "pieces (put b r k v) + (if at b r k \<noteq> None then 1 else 0) =
   pieces b + (if v \<noteq> None \<and> inGrid b r k then 1 else 0)"
proof (cases "nthInt b r")
  case None
  then show ?thesis by (simp add: put_def at_def inGrid_def)
next
  case (Some rw)
  let ?f = "\<lambda>r. length (filter (\<lambda>c. c \<noteq> None) r)"
  have rows: "pieces (put b r k v) + ?f rw = pieces b + ?f (updInt rw k v)"
    using sum_updInt[OF Some, of ?f "updInt rw k v"] Some by (simp add: pieces_def put_def)
  show ?thesis
  proof (cases "nthInt rw k")
    case None
    have "updInt xs i v = xs" if "nthInt xs i = None" for xs :: "Piece option list" and i
      using that by (induction xs arbitrary: i) (auto split: if_splits)
    with None rows Some show ?thesis by (simp add: at_def inGrid_def)
  next
    case cell: (Some x)
    from count_updInt[OF cell, of "\<lambda>c. c \<noteq> None" v] rows Some cell
    show ?thesis by (simp add: at_def inGrid_def)
  qed
qed

lemma pawn_move_changes_row:
  "to \<in> set (getPawnMoves b from c) \<Longrightarrow> row to \<noteq> row from"
  by (auto simp: getPawnMoves_def Let_def split: if_splits)

lemma pieces_applyMove_capture:
  assumes fr: "at b (row from) (col from) = Some piece"
    and to: "at b (row to) (col to) = Some victim"
    and pawn: "ptype piece = P \<Longrightarrow> row to \<noteq> row from"
  shows "pieces (applyMove b (plainMove from piece (Some victim) to)) < pieces b"
proof -
  let ?b1 = "put b (row to) (col to) (Some piece)"
  let ?b2 = "put ?b1 (row from) (col from) None"
  let ?b3 = "put ?b2 (row to) (col to) (Some \<lparr>ptype = Q, color = color piece\<rparr>)"
  note rf = at_Some_inGrid[OF fr] and rt = at_Some_inGrid[OF to]
  have p1: "pieces ?b1 = pieces b"
    using pieces_put[of b "row to" "col to" "Some piece"] to rt by simp
  have a1: "at ?b1 (row from) (col from) = Some piece"
    using fr rt by (simp add: at_put)
  have p2: "pieces ?b2 + 1 = pieces ?b1"
    using pieces_put[of ?b1 "row from" "col from" None] a1 by simp
  have p3: "pieces ?b3 = pieces ?b2" if "row to \<noteq> row from"
  proof -
    have "at ?b2 (row to) (col to) = Some piece"
      using that rt by (simp add: at_put inGrid_put)
    then show ?thesis
      using pieces_put[of ?b2 "row to" "col to" "Some \<lparr>ptype = Q, color = color piece\<rparr>"]
        at_Some_inGrid[of ?b2 "row to" "col to" piece] by simp
  qed
  have "applyMove b (plainMove from piece (Some victim) to) = ?b2
        \<or> (ptype piece = P \<and> applyMove b (plainMove from piece (Some victim) to) = ?b3)"
    using fr by (auto simp: applyMove_def plainMove_def Let_def)
  then show ?thesis using p1 p2 p3 pawn by auto
qed

lemma movesFrom_capture:
  assumes "m \<in> set (movesFrom b c cr from)" and "m_captured m \<noteq> None"
  shows "\<exists>piece victim to. at b (row from) (col from) = Some piece
           \<and> at b (row to) (col to) = Some victim
           \<and> to \<in> set (getValidMoves b from piece)
           \<and> m = plainMove from piece (Some victim) to"
  using assms
  by (auto simp: movesFrom_def Let_def plainMove_def castlingMove_def
           split: option.splits if_splits)

lemma getValidMoves_pawn:
  "to \<in> set (getValidMoves b from piece) \<Longrightarrow> ptype piece = P \<Longrightarrow> row to \<noteq> row from"
  by (auto simp: getValidMoves_def dest: pawn_move_changes_row)

lemma capture_decreases_pieces:
  assumes "m \<in> set (getValidMovesForColor b c cr lm)" and "m_captured m \<noteq> None"
  shows "pieces (applyMove b m) < pieces b"
proof -
  from assms(1) obtain src where "m \<in> set (movesFrom b c cr src)"
    by (auto simp: getValidMovesForColor_def)
  from movesFrom_capture[OF this assms(2)] obtain piece victim dst where
    *: "at b (row src) (col src) = Some piece" "at b (row dst) (col dst) = Some victim"
       "dst \<in> set (getValidMoves b src piece)" "m = plainMove src piece (Some victim) dst"
    by blast
  show ?thesis
    unfolding *(4) using *(1,2) getValidMoves_pawn[OF *(3)]
    by (intro pieces_applyMove_capture) auto
qed

lemma sortedCaptures_set:
  "m \<in> set (sortedCaptures moves) \<Longrightarrow> m \<in> set moves \<and> m_captured m \<noteq> None"
  by (auto simp: sortedCaptures_def)

function quiescence ::
  "Config \<Rightarrow> Board \<Rightarrow> PieceColor \<Rightarrow> score \<Rightarrow> score \<Rightarrow> CastlingRights option \<Rightarrow> Engine
   \<Rightarrow> score \<times> Engine" where
  "quiescence cfg board sideToMove alpha beta currentCastlingRights st =
     (case isTimeExpired cfg st of
        (True, st) \<Rightarrow> (Fin 0, st)
      | (False, st) \<Rightarrow>
          (let standPat = fromRoot cfg sideToMove (evaluate cfg board (rootColor cfg))
           in if standPat \<ge> beta then (beta, st)
              else
                (let alpha = (if standPat > alpha then standPat else alpha);
                     moves = getValidMovesForColor board sideToMove currentCastlingRights None;
                     captures = sortedCaptures moves;
                     nextColor = (if sideToMove = White then Black else White)
                 in case forOf
                      (\<lambda>move (alpha, st).
                         case isTimeExpired cfg st of
                           (True, st) \<Rightarrow> Break (alpha, st)
                         | (False, st) \<Rightarrow>
                             (let newBoard = applyMove board move;
                                  newRights = updateCastlingRights currentCastlingRights move board;
                                  (v, st) = quiescence cfg newBoard nextColor (- beta) (- alpha) newRights st;
                                  score = - v
                              in if score \<ge> beta then Return (beta, st)
                                 else Continue (if score > alpha then score else alpha, st)))
                      captures (alpha, st) of
                      Returned r \<Rightarrow> r
                    | Done (alpha, st) \<Rightarrow> (alpha, st))))"
  by pat_completeness auto
termination
  by (relation "measure (\<lambda>(cfg, board, rest). pieces board)")
     (auto dest!: sortedCaptures_set intro: capture_decreases_pieces)


section \<open>Negamax\<close>

definition ttCutoff :: "TTEntry option \<Rightarrow> int \<Rightarrow> score \<Rightarrow> score \<Rightarrow> score option" where
  "ttCutoff ttEntry depth alpha beta =
     (case ttEntry of
        None \<Rightarrow> None
      | Some e \<Rightarrow>
          if e_depth e \<ge> depth then
            (if e_flag e = Exact then Some (e_score e)
             else if e_flag e = Alpha \<and> e_score e \<le> alpha then Some (e_score e)
             else if e_flag e = Beta \<and> e_score e \<ge> beta then Some (e_score e)
             else None)
          else None)"

text \<open>The score given to a move that would repeat a position for the third time.\<close>

definition repetitionScore :: "Config \<Rightarrow> Board \<Rightarrow> PieceColor \<Rightarrow> score" where
  "repetitionScore cfg newBoard sideToMove =
     (let evalFromRoot = evaluate cfg newBoard (rootColor cfg);
          evalFromSide = fromRoot cfg sideToMove evalFromRoot
      in if evalFromSide > Fin 200 then Fin (- 150)
         else if evalFromSide < Fin (- 200) then Fin 150
         else Fin 0)"

text \<open>
  The variables of the move loop of \<^verbatim>\<open>negamax\<close>: \<^verbatim>\<open>alpha\<close>, \<^verbatim>\<open>bestScore\<close>,
  \<^verbatim>\<open>bestMoveLocal\<close>, \<^verbatim>\<open>movesSearched\<close>, and the engine state.
\<close>

type_synonym nodeVars = "score \<times> score \<times> Move option \<times> nat \<times> Engine"

text \<open>The end of one turn of the loop, once the score of the move is known.\<close>

definition recordScore :: "Move \<Rightarrow> int \<Rightarrow> int \<Rightarrow> score \<Rightarrow> score \<Rightarrow> nodeVars \<Rightarrow> (nodeVars, score \<times> Engine) step" where
  "recordScore move depth ply beta sc vars =
     (case vars of (alpha, bestScore, bestMoveLocal, movesSearched, st) \<Rightarrow>
        (let movesSearched = movesSearched + 1;
             (bestScore, bestMoveLocal) =
               (if sc > bestScore then (sc, Some move) else (bestScore, bestMoveLocal));
             (alpha, st) =
               (if bestScore > alpha
                then (bestScore,
                      if m_captured move = None
                      then updateHistory move depth (storeKiller move ply st) else st)
                else (alpha, st))
         in if alpha \<ge> beta then Break (alpha, bestScore, bestMoveLocal, movesSearched, st)
            else Continue (alpha, bestScore, bestMoveLocal, movesSearched, st)))"

definition ttFlag :: "score \<Rightarrow> score \<Rightarrow> score \<Rightarrow> Flag" where
  "ttFlag bestScore alphaOrig beta =
     (if bestScore \<le> alphaOrig then Alpha else if bestScore \<ge> beta then Beta else Exact)"

function negamax ::
  "Config \<Rightarrow> Board \<Rightarrow> PieceColor \<Rightarrow> int \<Rightarrow> score \<Rightarrow> score \<Rightarrow> CastlingRights option \<Rightarrow> int
   \<Rightarrow> bool \<Rightarrow> string list \<Rightarrow> Engine \<Rightarrow> score \<times> Engine" where
  "negamax cfg board sideToMove depth alpha beta currentCastlingRights ply allowNull history st =
     (case isTimeExpired cfg st of
        (True, st) \<Rightarrow> (Fin 0, st)
      | (False, st) \<Rightarrow>
          (let hash = hashPosition board sideToMove currentCastlingRights;
               alphaOrig = alpha;
               ttEntry = map_of (transpositionTable st) hash;
               mateValue = 100000;
               alpha = max alpha (Fin (- mateValue + ply));
               beta = min beta (Fin (mateValue - ply - 1))
           in if alpha \<ge> beta then (alpha, st)
              else case ttCutoff ttEntry depth alpha beta of
                Some v \<Rightarrow> (v, st)
              | None \<Rightarrow>
                  if depth \<le> 0
                  then quiescence cfg board sideToMove alpha beta currentCastlingRights st
                  else
                    (let moves = getValidMovesForColor board sideToMove currentCastlingRights None
                     in if moves = []
                        then (if isKingInCheck board sideToMove then Fin (- mateValue + ply) else Fin 0, st)
                        else
                          (let inCheck = isKingInCheck board sideToMove;
                               nextColor = (if sideToMove = White then Black else White);
                               (cut, st) =
                                 (if allowNull \<and> \<not> inCheck \<and> depth \<ge> 3
                                  then (let (v, st) = negamax cfg board nextColor (depth - 1 - 2)
                                                        (- beta) (addInt (- beta) 1)
                                                        currentCastlingRights (ply + 1) False history st
                                        in (- v \<ge> beta, st))
                                  else (False, st))
                           in if cut then (beta, st)
                              else
                                (let moves = orderMoves st moves ply
                                               (case ttEntry of None \<Rightarrow> None | Some e \<Rightarrow> e_bestMove e)
                                 in case forOf
                                      (\<lambda>move (alpha, bestScore, bestMoveLocal, movesSearched, st).
                                         case isTimeExpired cfg st of
                                           (True, st) \<Rightarrow> Break (alpha, bestScore, bestMoveLocal, movesSearched, st)
                                         | (False, st) \<Rightarrow>
                                             (let newBoard = applyMove board move;
                                                  newRights = updateCastlingRights currentCastlingRights move board;
                                                  newHash = hashPosition newBoard nextColor newRights
                                              in if isThirdRepetition newHash history
                                                 then recordScore move depth ply beta
                                                        (repetitionScore cfg newBoard sideToMove)
                                                        (alpha, bestScore, bestMoveLocal, movesSearched, st)
                                                 else
                                                   (let newHistory = history @ [newHash];
                                                        isLateMove = (movesSearched \<ge> 4 \<and> depth \<ge> 3 \<and> \<not> inCheck
                                                                      \<and> m_captured move = None \<and> m_promotion move = None);
                                                        reduction = (if isLateMove then 1 else 0)
                                                    in if movesSearched = 0
                                                       then
                                                         (let (v, st) = negamax cfg newBoard nextColor (depth - 1)
                                                                          (- beta) (- alpha) newRights (ply + 1) True newHistory st
                                                          in recordScore move depth ply beta (- v)
                                                               (alpha, bestScore, bestMoveLocal, movesSearched, st))
                                                       else
                                                         (let (v, st) = negamax cfg newBoard nextColor (depth - 1 - reduction)
                                                                          (- beta) (- alpha) newRights (ply + 1) True newHistory st
                                                          in if reduction > 0 \<and> - v > alpha
                                                             then
                                                               (let (v, st) = negamax cfg newBoard nextColor (depth - 1)
                                                                                (- beta) (- alpha) newRights (ply + 1) True newHistory st
                                                                in recordScore move depth ply beta (- v)
                                                                     (alpha, bestScore, bestMoveLocal, movesSearched, st))
                                                             else recordScore move depth ply beta (- v)
                                                                    (alpha, bestScore, bestMoveLocal, movesSearched, st)))))
                                      moves (alpha, NegInf, None, 0, st) of
                                      Returned r \<Rightarrow> r
                                    | Done (alpha, bestScore, bestMoveLocal, movesSearched, st) \<Rightarrow>
                                        (case isTimeExpired cfg st of
                                           (True, st) \<Rightarrow> (bestScore, st)
                                         | (False, st) \<Rightarrow>
                                             (bestScore,
                                              storeTT hash depth bestScore (ttFlag bestScore alphaOrig beta)
                                                bestMoveLocal st)))))))"
  by pat_completeness auto
termination
  by (relation "measure (\<lambda>(cfg, board, sideToMove, depth, rest). nat depth)") auto


section \<open>Root search and iterative deepening\<close>

text \<open>
  \<^verbatim>\<open>searchRoot\<close>. It assigns the variable \<^verbatim>\<open>bestMoveAtRoot\<close> of the enclosing
  call, which is passed in and handed back here; the value it returns is not
  used by its caller.
\<close>

definition searchRoot ::
  "Config \<Rightarrow> Board \<Rightarrow> PieceColor \<Rightarrow> CastlingRights option \<Rightarrow> int \<Rightarrow> string list
   \<Rightarrow> Move option \<times> Engine \<Rightarrow> Move option \<times> Engine" where
  "searchRoot cfg board c castlingRights depth history vars =
     (case vars of (bestMoveAtRoot, st) \<Rightarrow>
      case isTimeExpired cfg st of
        (True, st) \<Rightarrow> (bestMoveAtRoot, st)
      | (False, st) \<Rightarrow>
          (let moves = getValidMovesForColor board c castlingRights None
           in if moves = [] then (bestMoveAtRoot, st)
              else
                (let ttRoot = map_of (transpositionTable st) (hashPosition board c castlingRights);
                     moves = orderMoves st moves 0 (case ttRoot of None \<Rightarrow> None | Some e \<Rightarrow> e_bestMove e);
                     (alpha, beta) =
                       (if depth > 3 \<and> bestMoveAtRoot \<noteq> None
                        then (let previousScore = evaluate cfg board (rootColor cfg)
                              in (addInt previousScore (- 50), addInt previousScore 50))
                        else (NegInf, PosInf));
                     nextColor = (if c = White then Black else White)
                 in case forOf
                      (\<lambda>move (alpha, bestScore, bestMoveAtRoot, st).
                         case isTimeExpired cfg st of
                           (True, st) \<Rightarrow> Break (alpha, bestScore, bestMoveAtRoot, st)
                         | (False, st) \<Rightarrow>
                             (let newBoard = applyMove board move;
                                  newRights = updateCastlingRights castlingRights move board;
                                  newHash = hashPosition newBoard nextColor newRights;
                                  (sc, st) =
                                    (if isThirdRepetition newHash history
                                     then (repetitionScore cfg newBoard c, st)
                                     else
                                       (let newHistory = history @ [newHash];
                                            (v, st) = negamax cfg newBoard nextColor (depth - 1) (- beta) (- alpha)
                                                        newRights 1 True newHistory st
                                        in if (- v \<le> alpha \<or> - v \<ge> beta) \<and> depth > 3
                                           then (let (v, st) = negamax cfg newBoard nextColor (depth - 1)
                                                                 (- PosInf) PosInf newRights 1 True newHistory st
                                                 in (- v, st))
                                           else (- v, st)));
                                  (bestScore, bestMoveAtRoot) =
                                    (if sc > bestScore then (sc, Some move) else (bestScore, bestMoveAtRoot));
                                  alpha = (if bestScore > alpha then bestScore else alpha)
                              in if alpha \<ge> beta then Break (alpha, bestScore, bestMoveAtRoot, st)
                                 else Continue (alpha, bestScore, bestMoveAtRoot, st)))
                      moves (alpha, NegInf, bestMoveAtRoot, st) of
                      Returned r \<Rightarrow> r
                    | Done (alpha, bestScore, bestMoveAtRoot, st) \<Rightarrow> (bestMoveAtRoot, st))))"

text \<open>
  \<^verbatim>\<open>myMinimaxMove\<close>, from the module state to the chosen move and the module
  state it leaves behind. \<open>clockReadings\<close> are the values \<^verbatim>\<open>Date.now()\<close> gives
  during the call; the first is the start time, and the log line of each
  iteration reads the clock once.
\<close>

definition myMinimaxMove ::
  "(nat \<Rightarrow> int) \<Rightarrow> Board \<Rightarrow> PieceColor \<Rightarrow> int \<Rightarrow> (Board \<Rightarrow> PieceColor \<Rightarrow> score) \<Rightarrow> int option
   \<Rightarrow> CastlingRights option \<Rightarrow> string list option \<Rightarrow> Engine \<Rightarrow> Move option \<times> Engine" where
  "myMinimaxMove clockReadings board c depth eval budget castlingRights positionHistory st =
     (let cfg = \<lparr>evaluate = eval, rootColor = c, maxTime = budget,
                 startTime = clockReadings 0, now = clockReadings\<rparr>;
          st = st\<lparr>clock := 1, timeExpired := False\<rparr>;
          st = clearKillers (st\<lparr>currentAge := currentAge st + 1\<rparr>);
          baseHistory = (case positionHistory of None \<Rightarrow> [] | Some h \<Rightarrow> h)
                        @ [hashPosition board c castlingRights];
          allMoves = getValidMovesForColor board c castlingRights None;
          bestMoveAtRoot = (case allMoves of [] \<Rightarrow> None | m # _ \<Rightarrow> Some m);
          depth = (if depth = 0 then 1000 else depth)
      in case forOf
           (\<lambda>currentDepth (bestMoveAtRoot, st).
              case isTimeExpired cfg st of
                (True, st) \<Rightarrow> Break (bestMoveAtRoot, st)
              | (False, st) \<Rightarrow>
                  (let st = st\<lparr>clock := clock st + 1\<rparr>;
                       previousBest = bestMoveAtRoot;
                       (bestMoveAtRoot, st) =
                         searchRoot cfg board c castlingRights currentDepth baseHistory (bestMoveAtRoot, st)
                   in case isTimeExpired cfg st of
                        (expired, st) \<Rightarrow>
                          if expired \<and> currentDepth > 1 then Break (previousBest, st)
                          else if bestMoveAtRoot \<noteq> None \<and>
                                  (case map_of (transpositionTable st) (hashPosition board c castlingRights) of
                                     None \<Rightarrow> False
                                   | Some entry \<Rightarrow> scoreAbs (e_score entry) > Fin 99000)
                          then Break (bestMoveAtRoot, st)
                          else Continue (bestMoveAtRoot, st)))
           [1 .. depth] (bestMoveAtRoot, st) of
           Returned r \<Rightarrow> r
         | Done r \<Rightarrow> r)"

section \<open>Concrete positions\<close>

definition fullRights :: CastlingRights where
  "fullRights = \<lparr>whiteKingSide = True, whiteQueenSide = True,
                  blackKingSide = True, blackQueenSide = True\<rparr>"

definition noRights :: CastlingRights where
  "noRights = \<lparr>whiteKingSide = False, whiteQueenSide = False,
                blackKingSide = False, blackQueenSide = False\<rparr>"

definition emptyBoard :: Board where
  "emptyBoard = replicate 8 (replicate 8 None)"

definition pc :: "PieceType \<Rightarrow> PieceColor \<Rightarrow> Piece option" where
  "pc t c = Some \<lparr>ptype = t, color = c\<rparr>"

definition sq :: "int \<Rightarrow> int \<Rightarrow> Position" where
  "sq r k = \<lparr>row = r, col = k\<rparr>"

text \<open>
  White king and rook on their starting squares with nothing between them, a
  black pawn on row 1, column 6 (it attacks row 0, columns 5 and 7), the black
  king far away.
\<close>

definition pawnGuardBoard :: Board where
  "pawnGuardBoard =
     put (put (put (put emptyBoard 0 3 (pc K White)) 0 7 (pc R White)) 1 6 (pc P Black)) 7 3 (pc K Black)"

definition whiteCastlesLong :: Move where
  "whiteCastlesLong = castlingMove (sq 0 3) \<lparr>ptype = K, color = White\<rparr> (sq 0 5)"

text \<open>The initial position without the white queen and bishop of columns 4 and 5;
  the knight of column 6 still stands between king and rook.\<close>

definition knightBetweenBoard :: Board where
  "knightBetweenBoard = put (put createInitialBoard 0 4 None) 0 5 None"

text \<open>
  A white pawn on row 4, column 3, and a black pawn that has just advanced two
  squares from row 6 to row 4 in column 4, beside it.
\<close>

definition enPassantBoard :: Board where
  "enPassantBoard =
     put (put (put (put emptyBoard 0 3 (pc K White)) 7 3 (pc K Black)) 4 3 (pc P White)) 4 4 (pc P Black)"

definition blackDoubleStep :: Move where
  "blackDoubleStep = plainMove (sq 6 4) \<lparr>ptype = P, color = Black\<rparr> None (sq 4 4)"

definition enPassantCapture :: Move where
  "enPassantCapture =
     \<lparr>m_from = sq 4 3, m_to = sq 5 4, m_piece = \<lparr>ptype = P, color = White\<rparr>,
      m_captured = pc P Black, m_promotion = None, m_isCastling = False, m_isEnPassant = True\<rparr>"

definition initialEngine :: Engine where
  "initialEngine =
     \<lparr>transpositionTable = [], currentAge = 0, killerMoves = replicate 100 [],
      historyTable = (\<lambda>_ _. 0), timeExpired = False, clock = 0\<rparr>"

definition kingsBoard :: Board where
  "kingsBoard = put (put emptyBoard 0 0 (pc K White)) 7 7 (pc K Black)"

definition zeroEval :: "Board \<Rightarrow> PieceColor \<Rightarrow> score" where
  "zeroEval b c = Fin 0"


section \<open>Properties of the move generator\<close>

text \<open>
  C7. On the initial board, with white to move and all four castling rights,
  the legal move generator returns exactly 20 moves.
\<close>

theorem initial_position_has_20_moves:
  "length (getValidMovesForColor createInitialBoard White (Some fullRights) None) = 20"
  by code_simp

text \<open>
  C1, at the failing input. With the black pawn on row 1, column 6, the
  generator offers white the castling move to column 5, and after that move
  the white king stands on a square the pawn attacks. The transit squares
  were tested while empty, where \<^verbatim>\<open>getPawnMoves\<close> yields no diagonal step.
\<close>

theorem castling_move_leaves_king_attacked:
  "whiteCastlesLong \<in> set (getValidMovesForColor pawnGuardBoard White (Some fullRights) None)
   \<and> \<not> isKingInCheck pawnGuardBoard White
   \<and> isKingInCheck (applyMove pawnGuardBoard whiteCastlesLong) White"
  by code_simp

text \<open>
  C4, at the failing input. The castling move towards column 7 is generated
  although the knight on column 6 stands between king and rook: only columns
  4 and 5 are tested. Applied, the rook passes over the knight.
\<close>

theorem castling_generated_over_a_piece:
  "at knightBetweenBoard 0 6 = pc N White
   \<and> whiteCastlesLong \<in> set (getValidMovesForColor knightBetweenBoard White (Some fullRights) None)
   \<and> applyMove knightBetweenBoard whiteCastlesLong ! 0 =
       [pc R White, pc N White, pc B White, None, pc R White, pc K White, pc N White, None]"
  by code_simp

text \<open>
  C2, at the failing input. Right after the black pawn's two-square advance
  beside the white pawn, no generated move goes to the square behind the black
  pawn and none is marked en passant, whatever last move is passed. Applying a
  move that is marked en passant does remove the passed pawn.
\<close>

theorem en_passant_is_not_generated:
  "filter (\<lambda>m. m_to m = sq 5 4 \<or> m_isEnPassant m)
     (getValidMovesForColor enPassantBoard White (Some noRights) (Some blackDoubleStep)) = []
   \<and> at enPassantBoard 5 4 = None
   \<and> at (applyMove enPassantBoard enPassantCapture) 4 4 = None
   \<and> at (applyMove enPassantBoard enPassantCapture) 5 4 = pc P White"
  by code_simp

section \<open>Properties of the position key\<close>

lemma jsonPiece_decode:
  "jsonPiece p @ r = jsonPiece q @ s \<Longrightarrow> p = q \<and> r = s"
  by (cases p; cases q; cases "ptype p"; cases "ptype q"; cases "color p"; cases "color q")
     (simp_all add: jsonPiece_def jsonString_def)

lemma jsonCell_decode:
  "jsonCell a @ r = jsonCell b @ s \<Longrightarrow> a = b \<and> r = s"
proof (cases a; cases b)
  fix p q assume "a = Some p" "b = Some q" "jsonCell a @ r = jsonCell b @ s"
  then show ?thesis using jsonPiece_decode[of p r q s] by (simp add: jsonCell_def)
qed (auto simp: jsonCell_def jsonPiece_def jsonString_def)

lemma jsonCell_head: "jsonCell a \<noteq> [] \<and> hd (jsonCell a) \<noteq> CHR '']''"
  by (cases a) (auto simp: jsonCell_def jsonPiece_def)

lemma jsonItems_decode:
  assumes dec: "\<And>x y r s. f x @ r = f y @ s \<Longrightarrow> x = y \<and> r = s"
    and hd: "\<And>x. f x \<noteq> [] \<and> hd (f x) \<noteq> CHR '']''"
  shows "jsonItems f xs @ CHR '']'' # r = jsonItems f ys @ CHR '']'' # s \<Longrightarrow> xs = ys \<and> r = s"
proof (induction xs arbitrary: ys)
  case Nil
  show ?case
  proof (cases ys)
    case Nil
    with Nil.prems show ?thesis by simp
  next
    case (Cons y ys')
    have "hd (jsonItems f (y # ys') @ CHR '']'' # s) = hd (f y)"
      using hd[of y] by (cases ys') auto
    with Nil.prems Cons hd[of y] show ?thesis by (metis jsonItems.simps(1) append_Nil list.sel(1))
  qed
next
  case (Cons x xs')
  show ?case
  proof (cases ys)
    case Nil
    have "hd (jsonItems f (x # xs') @ CHR '']'' # r) = hd (f x)"
      using hd[of x] by (cases xs') auto
    with Cons.prems Nil hd[of x] show ?thesis by (metis jsonItems.simps(1) append_Nil list.sel(1))
  next
    case ys: (Cons y ys')
    show ?thesis
    proof (cases xs'; cases ys')
      assume "xs' = []" "ys' = []"
      with Cons.prems ys show ?thesis using dec[of x "CHR '']'' # r" y "CHR '']'' # s"] by simp
    next
      fix y2 ys2 assume "xs' = []" "ys' = y2 # ys2"
      with Cons.prems ys show ?thesis
        using dec[of x "CHR '']'' # r" y "CHR '','' # jsonItems f (y2 # ys2) @ CHR '']'' # s"] by simp
    next
      fix x2 xs2 assume "xs' = x2 # xs2" "ys' = []"
      with Cons.prems ys show ?thesis
        using dec[of x "CHR '','' # jsonItems f (x2 # xs2) @ CHR '']'' # r" y "CHR '']'' # s"] by simp
    next
      fix x2 xs2 y2 ys2 assume a: "xs' = x2 # xs2" "ys' = y2 # ys2"
      with Cons.prems ys have "x = y \<and> jsonItems f xs' @ CHR '']'' # r = jsonItems f ys' @ CHR '']'' # s"
        using dec[of x "CHR '','' # jsonItems f (x2 # xs2) @ CHR '']'' # r" y
                     "CHR '','' # jsonItems f (y2 # ys2) @ CHR '']'' # s"] by simp
      with Cons.IH[of ys'] ys show ?thesis by simp
    qed
  qed
qed

lemma jsonArray_decode:
  assumes dec: "\<And>x y r s. f x @ r = f y @ s \<Longrightarrow> x = y \<and> r = s"
    and hd: "\<And>x. f x \<noteq> [] \<and> hd (f x) \<noteq> CHR '']''"
  shows "jsonArray f xs @ r = jsonArray f ys @ s \<Longrightarrow> xs = ys \<and> r = s"
  using jsonItems_decode[where f = f and xs = xs and ys = ys and r = r and s = s] dec hd
  by (simp add: jsonArray_def)

lemma jsonArray_head: "jsonArray f xs \<noteq> [] \<and> hd (jsonArray f xs) \<noteq> CHR '']''"
  by (simp add: jsonArray_def)

lemma jsonRow_decode:
  "jsonArray jsonCell x @ r = jsonArray jsonCell y @ s \<Longrightarrow> x = y \<and> r = s"
proof (rule jsonArray_decode[where f = jsonCell])
  show "\<And>x y r s. jsonCell x @ r = jsonCell y @ s \<Longrightarrow> x = y \<and> r = s"
    by (rule jsonCell_decode)
  show "\<And>x. jsonCell x \<noteq> [] \<and> hd (jsonCell x) \<noteq> CHR '']''"
    by (rule jsonCell_head)
qed

lemma jsonBoard_decode:
  "jsonArray (jsonArray jsonCell) b @ r = jsonArray (jsonArray jsonCell) b' @ s \<Longrightarrow> b = b' \<and> r = s"
proof (rule jsonArray_decode[where f = "jsonArray jsonCell"])
  show "\<And>x y r s. jsonArray jsonCell x @ r = jsonArray jsonCell y @ s \<Longrightarrow> x = y \<and> r = s"
    by (rule jsonRow_decode)
  show "\<And>x. jsonArray jsonCell x \<noteq> [] \<and> hd (jsonArray jsonCell x) \<noteq> CHR '']''"
    by (rule jsonArray_head)
qed

lemma jsonRights_inj: "jsonRights c = jsonRights c' \<Longrightarrow> c = c'"
  by (cases c; cases c') (auto simp: jsonRights_def jsonBool_def jsonString_def split: if_splits)

lemma colorName_decode: "colorName c @ r = colorName c' @ s \<Longrightarrow> c = c' \<and> r = s"
  by (cases c; cases c') auto

text \<open>
  C5. Two positions get the same key exactly when they have the same board,
  the same side to move and the same castling rights (an absent rights object
  included): the key is an exact encoding.
\<close>

theorem hashPosition_inj:
  "hashPosition b1 s1 c1 = hashPosition b2 s2 c2 \<longleftrightarrow> b1 = b2 \<and> s1 = s2 \<and> c1 = c2"
proof
  assume eq: "hashPosition b1 s1 c1 = hashPosition b2 s2 c2"
  let ?t1 = "'','' @ jsonString ''s'' @ '':'' @ jsonString (colorName s1)
     @ (case c1 of None \<Rightarrow> [] | Some cr \<Rightarrow> '','' @ jsonString ''c'' @ '':'' @ jsonRights cr) @ ''}''"
  let ?t2 = "'','' @ jsonString ''s'' @ '':'' @ jsonString (colorName s2)
     @ (case c2 of None \<Rightarrow> [] | Some cr \<Rightarrow> '','' @ jsonString ''c'' @ '':'' @ jsonRights cr) @ ''}''"
  from eq have "jsonArray (jsonArray jsonCell) b1 @ ?t1 = jsonArray (jsonArray jsonCell) b2 @ ?t2"
    by (simp add: hashPosition_def jsonString_def)
  then have b: "b1 = b2" and t: "?t1 = ?t2" using jsonBoard_decode by blast+
  from t have "colorName s1 @ (CHR 0x22 # (case c1 of None \<Rightarrow> [] | Some cr \<Rightarrow> '','' @ jsonString ''c'' @ '':'' @ jsonRights cr) @ ''}'')
     = colorName s2 @ (CHR 0x22 # (case c2 of None \<Rightarrow> [] | Some cr \<Rightarrow> '','' @ jsonString ''c'' @ '':'' @ jsonRights cr) @ ''}'')"
    by (simp add: jsonString_def)
  then have s: "s1 = s2" and u: "(case c1 of None \<Rightarrow> [] | Some cr \<Rightarrow> '','' @ jsonString ''c'' @ '':'' @ jsonRights cr) @ ''}''
     = (case c2 of None \<Rightarrow> [] | Some cr \<Rightarrow> '','' @ jsonString ''c'' @ '':'' @ jsonRights cr) @ ''}''"
    using colorName_decode by blast+
  from u have "c1 = c2"
    by (cases c1; cases c2) (auto simp: jsonString_def dest: jsonRights_inj)
  with b s show "b1 = b2 \<and> s1 = s2 \<and> c1 = c2" by simp
qed auto


section \<open>Properties of repetition detection\<close>

lemma repetitionLoop_count:
  "repetitionLoop key history n \<longleftrightarrow> n + count_list history key \<ge> 2 \<and> count_list history key \<ge> 1"
  by (induction history arbitrary: n) auto

text \<open>
  C6. \<^verbatim>\<open>isThirdRepetition\<close> answers true exactly when the candidate key occurs
  at least twice in the history.
\<close>

theorem isThirdRepetition_iff_two_occurrences:
  "isThirdRepetition key history \<longleftrightarrow> count_list history key \<ge> 2"
  by (auto simp: isThirdRepetition_def repetitionLoop_count)

end
